theory Spec2Isabelle
  imports Complex_Main "HOL-Library.Sublist"
begin

section \<open>The order service: data\<close>

text \<open>
  The struct \<open>Order\<close> of \<^verbatim>\<open>order-service/main.go\<close>. Go's \<open>int\<close> fields are
  carried as integers (the handler does no arithmetic on them), the \<open>float64\<close> amount as
  the rational number it denotes (a decoded JSON number is finite, and the handler only
  passes it on), and \<open>time.Time\<close> as an instant on an integer clock.
\<close>

type_synonym time = int

record Order =
  ID :: int
  UserID :: int
  Product :: string
  Quantity :: int
  Amount :: rat
  Status :: string
  CreatedAt :: time

text \<open>
  The request body as \<open>json.NewDecoder(r.Body).Decode(&order)\<close> sees it: either the
  decoder returns an error (with its text), or it fills the struct. Fields absent from
  the payload keep Go's zero value; \<open>id\<close>, \<open>status\<close> and \<open>created_at\<close> are
  ordinary fields of the struct and are decoded when the client sends them.
\<close>

datatype request = Unparseable string | Payload Order

text \<open>
  What an outbound \<open>http.Get\<close> or \<open>http.Post\<close> can do: return a response with a
  status code, return an error (with its text), or not return at all. The service calls
  the package-level functions, that is the default client, on which no timeout is set.
\<close>

datatype http_outcome = Responded nat | TransportError string | NoReply

text \<open>
  Everything outside the handler that one invocation depends on: the two collaborating
  services, the clock, and whether the database accepts the two statements.
\<close>

record env =
  http_Get :: "int \<Rightarrow> http_outcome"
  http_Post :: "int \<Rightarrow> rat \<Rightarrow> http_outcome"
  time_Now :: time
  insert_error :: "string option"
  update_error :: "string option"

text \<open>The \<open>orders\<close> table: its rows in insertion order and the next identifier.\<close>

record store =
  rows :: "Order list"
  next_id :: int

text \<open>
  The observable effects of an invocation, in the order they happen: the outbound calls
  and the statements sent to the database, each with the arguments the code passes.
\<close>

datatype event =
  HttpGet int
| QueryRowInsert int string int rat string time
| HttpPost int rat
| ExecUpdate string int

text \<open>
  The state threaded through the handler: the table, the effects so far, and the table's
  contents after each statement that changed it.
\<close>

record world =
  db :: store
  trace :: "event list"
  snapshots :: "store list"

definition start :: "store \<Rightarrow> world" where
  "start st = \<lparr>db = st, trace = [], snapshots = []\<rparr>"

datatype body = Text string | Json Order

record http_response =
  status_code :: nat
  content_type :: string
  body :: body

text \<open>A call either returns a value or blocks for ever.\<close>

datatype 'a call = Returned 'a | Blocked

section \<open>The order service: operations\<close>

definition StatusOK :: nat where "StatusOK = 200"
definition StatusBadRequest :: nat where "StatusBadRequest = 400"
definition StatusInternalServerError :: nat where "StatusInternalServerError = 500"

text \<open>
  \<open>http.Error(w, msg, code)\<close>: a plain-text reply with the given status, whose
  body is the message (the line end that follows it is left out).
\<close>

definition http_Error :: "string \<Rightarrow> nat \<Rightarrow> http_response" where
  "http_Error msg code =
     \<lparr>status_code = code, content_type = ''text/plain; charset=utf-8'', body = Text msg\<rparr>"

text \<open>
  The success reply: the \<open>Content-Type\<close> header set by the handler, the implicit
  status 200 of the first write, and the encoded order.
\<close>

definition json_Encode :: "Order \<Rightarrow> http_response" where
  "json_Encode order =
     \<lparr>status_code = StatusOK, content_type = ''application/json'', body = Json order\<rparr>"

text \<open>
  \<open>validateUser\<close>: one GET to the user service. A Go \<open>error\<close> is \<open>Some\<close> text,
  \<open>nil\<close> is \<open>None\<close>.
\<close>

definition validateUser :: "env \<Rightarrow> int \<Rightarrow> world \<Rightarrow> string option call \<times> world" where
  "validateUser e userID w =
     (let w1 = w\<lparr>trace := trace w @ [HttpGet userID]\<rparr> in
      case http_Get e userID of
        NoReply \<Rightarrow> (Blocked, w1)
      | TransportError err \<Rightarrow> (Returned (Some (''user service unavailable: '' @ err)), w1)
      | Responded code \<Rightarrow>
          if code \<noteq> StatusOK then (Returned (Some ''user not found''), w1)
          else (Returned None, w1))"

text \<open>\<open>processPayment\<close>: one POST of \<open>{order_id, amount}\<close> to the payment service.\<close>

definition processPayment :: "env \<Rightarrow> int \<Rightarrow> rat \<Rightarrow> world \<Rightarrow> string option call \<times> world" where
  "processPayment e orderID amount w =
     (let w1 = w\<lparr>trace := trace w @ [HttpPost orderID amount]\<rparr> in
      case http_Post e orderID amount of
        NoReply \<Rightarrow> (Blocked, w1)
      | TransportError err \<Rightarrow> (Returned (Some (''payment service unavailable: '' @ err)), w1)
      | Responded code \<Rightarrow>
          if code \<noteq> StatusOK then (Returned (Some ''payment failed''), w1)
          else (Returned None, w1))"

text \<open>
  Modelled from the spec: the declaration of the \<open>orders\<close> table is not part of the
  sources, so how the store assigns identifiers is taken from the specification
  ("Identifier: opaque, unique, assigned at creation time by the Order Store"): the
  store hands out the next value of a counter. The statement itself is the one in
  \<open>CreateOrder\<close>: it names six columns, never \<open>id\<close>, and returns the new \<open>id\<close>.
  A statement the database rejects leaves the table as it was.
\<close>

definition insert_row ::
  "int \<Rightarrow> string \<Rightarrow> int \<Rightarrow> rat \<Rightarrow> string \<Rightarrow> time \<Rightarrow> store \<Rightarrow> store" where
  "insert_row user_id product quantity amount status created_at st =
     \<lparr>rows = rows st @
        [\<lparr>ID = next_id st, UserID = user_id, Product = product, Quantity = quantity,
          Amount = amount, Status = status, CreatedAt = created_at\<rparr>],
      next_id = next_id st + 1\<rparr>"

definition db_QueryRow_insert ::
  "env \<Rightarrow> int \<Rightarrow> string \<Rightarrow> int \<Rightarrow> rat \<Rightarrow> string \<Rightarrow> time \<Rightarrow> world \<Rightarrow> (string + int) \<times> world" where
  "db_QueryRow_insert e user_id product quantity amount status created_at w =
     (let w1 = w\<lparr>trace := trace w @
                 [QueryRowInsert user_id product quantity amount status created_at]\<rparr> in
      case insert_error e of
        Some err \<Rightarrow> (Inl err, w1)
      | None \<Rightarrow>
          let st1 = insert_row user_id product quantity amount status created_at (db w1)
          in (Inr (next_id (db w1)), w1\<lparr>db := st1, snapshots := snapshots w1 @ [st1]\<rparr>))"

text \<open>\<open>UPDATE orders SET status = $1 WHERE id = $2\<close>; the caller ignores the result.\<close>

definition set_status :: "string \<Rightarrow> int \<Rightarrow> Order \<Rightarrow> Order" where
  "set_status status i r = (if ID r = i then r\<lparr>Status := status\<rparr> else r)"

definition update_status :: "string \<Rightarrow> int \<Rightarrow> store \<Rightarrow> store" where
  "update_status status i st = st\<lparr>rows := map (set_status status i) (rows st)\<rparr>"

definition db_Exec_update :: "env \<Rightarrow> string \<Rightarrow> int \<Rightarrow> world \<Rightarrow> world" where
  "db_Exec_update e status i w =
     (let w1 = w\<lparr>trace := trace w @ [ExecUpdate status i]\<rparr> in
      case update_error e of
        Some err \<Rightarrow> w1
      | None \<Rightarrow>
          let st1 = update_status status i (db w1)
          in w1\<lparr>db := st1, snapshots := snapshots w1 @ [st1]\<rparr>)"

text \<open>
  \<open>CreateOrder\<close>, statement by statement. The reply is \<open>None\<close> when the handler is
  blocked in an outbound call and never writes one.
\<close>

definition CreateOrder :: "env \<Rightarrow> request \<Rightarrow> world \<Rightarrow> http_response option \<times> world" where
  "CreateOrder e r w =
     (case r of
        Unparseable err \<Rightarrow> (Some (http_Error err StatusBadRequest), w)
      | Payload order \<Rightarrow>
         (case validateUser e (UserID order) w of
            (Blocked, w1) \<Rightarrow> (None, w1)
          | (Returned (Some err), w1) \<Rightarrow> (Some (http_Error err StatusBadRequest), w1)
          | (Returned None, w1) \<Rightarrow>
             (let order1 = order\<lparr>Status := ''pending'', CreatedAt := time_Now e\<rparr> in
              case db_QueryRow_insert e (UserID order1) (Product order1) (Quantity order1)
                     (Amount order1) (Status order1) (CreatedAt order1) w1 of
                (Inl err, w2) \<Rightarrow> (Some (http_Error err StatusInternalServerError), w2)
              | (Inr new_id, w2) \<Rightarrow>
                 (let order2 = order1\<lparr>ID := new_id\<rparr> in
                  case processPayment e (ID order2) (Amount order2) w2 of
                    (Blocked, w3) \<Rightarrow> (None, w3)
                  | (Returned (Some err), w3) \<Rightarrow>
                      (let w4 = db_Exec_update e ''payment_failed'' (ID order2) w3
                       in (Some (http_Error err StatusInternalServerError), w4))
                  | (Returned None, w3) \<Rightarrow>
                      (let order3 = order2\<lparr>Status := ''completed''\<rparr>;
                           w4 = db_Exec_update e (Status order3) (ID order3) w3
                       in (Some (json_Encode order3), w4))))))"

section \<open>The request body and the decoder\<close>

text \<open>
  The body of a request before \<open>Decode\<close> has run. The decoder is Go's
  \<open>encoding/json\<close>; it is not part of the sources, and what it does with one member
  of the JSON object for one field of the struct is written out here as that package
  documents it. A body is either not a JSON object at all, or an object that gives, for
  each field of \<open>Order\<close>, no member or a member with a JSON value. Of a value only its
  shape matters: \<open>JInt\<close> is a number written as an integer, \<open>JReal\<close> any other
  number (given by the value it denotes), and the contents of arrays and objects play no
  part.
\<close>

datatype json = JNull | JBool bool | JInt int | JReal rat | JString string | JArray | JObject

record members =
  m_id :: "json option"
  m_user_id :: "json option"
  m_product :: "json option"
  m_quantity :: "json option"
  m_amount :: "json option"
  m_status :: "json option"
  m_created_at :: "json option"

datatype raw_body = Invalid | Object members

text \<open>
  Decoding one member into a field that holds \<open>cur\<close>: an absent member and
  \<open>null\<close> leave the field as it is, a value of the right shape is stored, and any
  other value is an error (\<open>None\<close>). An \<open>int\<close> takes an integer literal within 64
  bits, a \<open>float64\<close> any number, a \<open>string\<close> a JSON string, and a
  \<open>time.Time\<close> a JSON string that parses as a time; the parser is a parameter.
\<close>

definition into_int :: "json option \<Rightarrow> int \<Rightarrow> int option" where
  "into_int v cur =
     (case v of
        None \<Rightarrow> Some cur
      | Some JNull \<Rightarrow> Some cur
      | Some (JInt i) \<Rightarrow> if - (2 ^ 63) \<le> i \<and> i < 2 ^ 63 then Some i else None
      | Some other \<Rightarrow> None)"

definition into_float64 :: "json option \<Rightarrow> rat \<Rightarrow> rat option" where
  "into_float64 v cur =
     (case v of
        None \<Rightarrow> Some cur
      | Some JNull \<Rightarrow> Some cur
      | Some (JInt i) \<Rightarrow> Some (of_int i)
      | Some (JReal q) \<Rightarrow> Some q
      | Some other \<Rightarrow> None)"

definition into_string :: "json option \<Rightarrow> string \<Rightarrow> string option" where
  "into_string v cur =
     (case v of
        None \<Rightarrow> Some cur
      | Some JNull \<Rightarrow> Some cur
      | Some (JString s) \<Rightarrow> Some s
      | Some other \<Rightarrow> None)"

definition into_Time :: "(string \<Rightarrow> time option) \<Rightarrow> json option \<Rightarrow> time \<Rightarrow> time option" where
  "into_Time parse v cur =
     (case v of
        None \<Rightarrow> Some cur
      | Some JNull \<Rightarrow> Some cur
      | Some (JString s) \<Rightarrow> parse s
      | Some other \<Rightarrow> None)"

text \<open>
  \<open>var order Order; json.NewDecoder(r.Body).Decode(&order)\<close>: every field starts
  at Go's zero value, and the call returns an error as soon as one member cannot be
  stored. The text of the error is taken as given.
\<close>

definition Decode :: "(string \<Rightarrow> time option) \<Rightarrow> string \<Rightarrow> raw_body \<Rightarrow> request" where
  "Decode parse err b =
     (case b of
        Invalid \<Rightarrow> Unparseable err
      | Object m \<Rightarrow>
         (case into_int (m_id m) 0 of None \<Rightarrow> Unparseable err | Some i \<Rightarrow>
          case into_int (m_user_id m) 0 of None \<Rightarrow> Unparseable err | Some u \<Rightarrow>
          case into_string (m_product m) [] of None \<Rightarrow> Unparseable err | Some p \<Rightarrow>
          case into_int (m_quantity m) 0 of None \<Rightarrow> Unparseable err | Some q \<Rightarrow>
          case into_float64 (m_amount m) 0 of None \<Rightarrow> Unparseable err | Some a \<Rightarrow>
          case into_string (m_status m) [] of None \<Rightarrow> Unparseable err | Some s \<Rightarrow>
          case into_Time parse (m_created_at m) 0 of None \<Rightarrow> Unparseable err | Some t \<Rightarrow>
            Payload \<lparr>ID = i, UserID = u, Product = p, Quantity = q, Amount = a,
                     Status = s, CreatedAt = t\<rparr>))"

section \<open>Outcomes of the collaborators\<close>

text \<open>
  The user lookup fails when the GET returns an error or a status other than 200, and
  succeeds on a 200; the same for the payment POST. A call that never returns is neither.
\<close>

definition lookup_fails :: "env \<Rightarrow> int \<Rightarrow> bool" where
  "lookup_fails e userID =
     (case http_Get e userID of
        TransportError err \<Rightarrow> True
      | Responded code \<Rightarrow> code \<noteq> StatusOK
      | NoReply \<Rightarrow> False)"

definition lookup_ok :: "env \<Rightarrow> int \<Rightarrow> bool" where
  "lookup_ok e userID = (http_Get e userID = Responded StatusOK)"

definition payment_fails :: "env \<Rightarrow> int \<Rightarrow> rat \<Rightarrow> bool" where
  "payment_fails e orderID amount =
     (case http_Post e orderID amount of
        TransportError err \<Rightarrow> True
      | Responded code \<Rightarrow> code \<noteq> StatusOK
      | NoReply \<Rightarrow> False)"

definition payment_ok :: "env \<Rightarrow> int \<Rightarrow> rat \<Rightarrow> bool" where
  "payment_ok e orderID amount = (http_Post e orderID amount = Responded StatusOK)"

section \<open>The status of a stored order\<close>

definition valid_status :: "string \<Rightarrow> bool" where
  "valid_status s = (s = ''pending'' \<or> s = ''completed'' \<or> s = ''payment_failed'')"

definition terminal_status :: "string \<Rightarrow> bool" where
  "terminal_status s = (s = ''completed'' \<or> s = ''payment_failed'')"

definition status_of :: "store \<Rightarrow> int \<Rightarrow> string option" where
  "status_of st i = map_option Status (find (\<lambda>r. ID r = i) (rows st))"

text \<open>
  The moves of one order's status between two successive contents of the table: it stays
  as it is, it appears as pending, or it goes from pending to a terminal status.
\<close>

fun legal_transition :: "string option \<Rightarrow> string option \<Rightarrow> bool" where
  "legal_transition None None = True"
| "legal_transition None (Some b) = (b = ''pending'')"
| "legal_transition (Some a) None = False"
| "legal_transition (Some a) (Some b) = (a = b \<or> (a = ''pending'' \<and> terminal_status b))"

text \<open>The part of a row that comes from the client's payload.\<close>

definition client_fields :: "Order \<Rightarrow> int \<times> string \<times> int \<times> rat" where
  "client_fields r = (UserID r, Product r, Quantity r, Amount r)"

definition is_update :: "event \<Rightarrow> bool" where
  "is_update ev = (case ev of ExecUpdate s i \<Rightarrow> True | _ \<Rightarrow> False)"

definition is_insert :: "event \<Rightarrow> bool" where
  "is_insert ev = (case ev of QueryRowInsert u p q a s t \<Rightarrow> True | _ \<Rightarrow> False)"

definition is_get :: "event \<Rightarrow> bool" where
  "is_get ev = (case ev of HttpGet u \<Rightarrow> True | _ \<Rightarrow> False)"

definition is_post :: "event \<Rightarrow> bool" where
  "is_post ev = (case ev of HttpPost i a \<Rightarrow> True | _ \<Rightarrow> False)"

text \<open>
  The tables the service can produce: the empty one, and whatever an invocation of
  \<open>CreateOrder\<close> leaves behind, in any environment and for any request.
\<close>

definition empty_store :: store where
  "empty_store = \<lparr>rows = [], next_id = 1\<rparr>"

inductive reachable :: "store \<Rightarrow> bool" where
  initial: "reachable empty_store"
| invoke: "reachable st \<Longrightarrow> CreateOrder e r (start st) = (reply, w) \<Longrightarrow> reachable (db w)"

text \<open>
  What every such table satisfies: identifiers lie below the counter and are pairwise
  distinct, and every status is one of the three.
\<close>

definition store_inv :: "store \<Rightarrow> bool" where
  "store_inv st =
     (list_all (\<lambda>r. ID r < next_id st) (rows st) \<and>
      distinct (map ID (rows st)) \<and>
      list_all (\<lambda>r. valid_status (Status r)) (rows st))"

text \<open>
  Notation for the table right after \<open>CreateOrder\<close> has inserted the pending order
  of a payload.
\<close>

abbreviation pending_store :: "env \<Rightarrow> Order \<Rightarrow> store \<Rightarrow> store" where
  "pending_store e order st \<equiv>
     insert_row (UserID order) (Product order) (Quantity order) (Amount order)
       ''pending'' (time_Now e) st"

section \<open>Concrete scenarios\<close>

text \<open>
  A user service that knows user 1 only (the user service answers 404 for an unknown
  id), a payment service, a clock reading and a database that accept everything.
\<close>

definition env_ok :: env where
  "env_ok = \<lparr>http_Get = (\<lambda>u. if u = 1 then Responded 200 else Responded 404),
            http_Post = (\<lambda>i a. Responded 200),
            time_Now = 1000,
            insert_error = None,
            update_error = None\<rparr>"

definition book_order :: Order where
  "book_order = \<lparr>ID = 0, UserID = 1, Product = ''book'', Quantity = 2, Amount = 30,
                Status = [], CreatedAt = 0\<rparr>"

text \<open>Scenario B: the payment service answers with a status other than 200.\<close>

definition env_payment_rejected :: env where
  "env_payment_rejected = env_ok\<lparr>http_Post := (\<lambda>i a. Responded 402)\<rparr>"

text \<open>Scenario E: the insert raises an error.\<close>

definition env_insert_fails :: env where
  "env_insert_fails = env_ok\<lparr>insert_error := Some ''pq: connection refused''\<rparr>"

text \<open>The collaborators accept the connection and then stay silent.\<close>

definition env_users_silent :: env where
  "env_users_silent = env_ok\<lparr>http_Get := (\<lambda>u. NoReply)\<rparr>"

definition env_payment_silent :: env where
  "env_payment_silent = env_ok\<lparr>http_Post := (\<lambda>i a. NoReply)\<rparr>"

text \<open>The database accepts the insert and rejects the update.\<close>

definition env_update_fails :: env where
  "env_update_fails = env_ok\<lparr>update_error := Some ''pq: connection refused''\<rparr>"

text \<open>
  Bodies: the one that decodes to \<open>book_order\<close>, the same with the three further
  members in their proper shapes, the same with a string for \<open>id\<close>, and the same with
  a number for \<open>created_at\<close>. No time string has to be parsed in the last two, and
  the parser of the examples knows one string only.
\<close>

definition book_body :: members where
  "book_body = \<lparr>m_id = None, m_user_id = Some (JInt 1), m_product = Some (JString ''book''),
               m_quantity = Some (JInt 2), m_amount = Some (JInt 30), m_status = None,
               m_created_at = None\<rparr>"

definition forged_body :: members where
  "forged_body = book_body\<lparr>m_id := Some (JInt 77), m_status := Some (JString ''completed''),
                            m_created_at := Some (JString ''2020-01-01T00:00:00Z'')\<rparr>"

definition bad_id_body :: members where
  "bad_id_body = book_body\<lparr>m_id := Some (JString ''abc'')\<rparr>"

definition bad_time_body :: members where
  "bad_time_body = book_body\<lparr>m_created_at := Some (JInt 5)\<rparr>"

definition parse_one :: "string \<Rightarrow> time option" where
  "parse_one s = (if s = ''2020-01-01T00:00:00Z'' then Some 5 else None)"

text \<open>Scenario C: a payload that names a user the user service does not know.\<close>

definition unknown_user_order :: Order where
  "unknown_user_order = \<lparr>ID = 0, UserID = 999, Product = ''book'', Quantity = 1,
                        Amount = 30, Status = [], CreatedAt = 0\<rparr>"

text \<open>
  A payload that names an existing user but has an empty product and a negative amount,
  and one whose user identifier is zero.
\<close>

definition odd_order :: Order where
  "odd_order = \<lparr>ID = 0, UserID = 1, Product = [], Quantity = 0, Amount = - 5,
               Status = [], CreatedAt = 0\<rparr>"

definition zero_user_order :: Order where
  "zero_user_order = \<lparr>ID = 0, UserID = 0, Product = ''book'', Quantity = 1, Amount = 30,
                     Status = [], CreatedAt = 0\<rparr>"

lemmas model_defs =
  CreateOrder_def validateUser_def processPayment_def db_QueryRow_insert_def
  db_Exec_update_def http_Error_def json_Encode_def start_def
  StatusOK_def StatusBadRequest_def StatusInternalServerError_def Let_def

lemmas decode_defs = Decode_def into_int_def into_float64_def into_string_def into_Time_def

lemmas outcome_defs = lookup_fails_def lookup_ok_def payment_fails_def payment_ok_def

lemmas scenario_defs =
  env_ok_def book_order_def env_payment_rejected_def env_insert_fails_def
  env_users_silent_def env_payment_silent_def odd_order_def
  zero_user_order_def empty_store_def unknown_user_order_def env_update_fails_def
  book_body_def forged_body_def bad_id_body_def bad_time_body_def parse_one_def

section \<open>Auxiliary facts\<close>

lemma find_append_rows:
  "find P (xs @ ys) = (case find P xs of None \<Rightarrow> find P ys | Some x \<Rightarrow> Some x)"
  by (induction xs) auto

lemma find_set_status:
  "find (\<lambda>r. ID r = j) (map (set_status s i) xs) =
   map_option (set_status s i) (find (\<lambda>r. ID r = j) xs)"
  by (induction xs) (auto simp: set_status_def)

lemma ID_set_status: "ID \<circ> set_status s i = ID"
  by (simp add: fun_eq_iff set_status_def)

lemma status_of_insert_row:
  "status_of (insert_row u p q a s t st) j =
     (case status_of st j of
        Some old \<Rightarrow> Some old
      | None \<Rightarrow> if j = next_id st then Some s else None)"
  by (auto simp: status_of_def insert_row_def find_append_rows split: option.splits)

lemma status_of_update_status:
  "status_of (update_status s i st) j =
     (if j = i then map_option (\<lambda>old. s) (status_of st j) else status_of st j)"
proof (cases "find (\<lambda>r. ID r = j) (rows st)")
  case None
  then show ?thesis
    by (auto simp: status_of_def update_status_def find_set_status)
next
  case (Some r)
  then have "ID r = j"
    by (auto simp: find_Some_iff)
  with Some show ?thesis
    by (auto simp: status_of_def update_status_def find_set_status set_status_def)
qed

lemma status_of_fresh:
  "list_all (\<lambda>r. ID r < next_id st) (rows st) \<Longrightarrow> status_of st (next_id st) = None"
  by (auto simp: status_of_def find_None_iff list_all_iff)

text \<open>The ways through the handler.\<close>

lemma run_unparseable:
  "CreateOrder e (Unparseable err) w = (Some (http_Error err StatusBadRequest), w)"
  by (simp add: CreateOrder_def)

lemma run_lookup_blocked:
  "http_Get e (UserID order) = NoReply \<Longrightarrow>
   CreateOrder e (Payload order) (start st) =
     (None, \<lparr>db = st, trace = [HttpGet (UserID order)], snapshots = []\<rparr>)"
  by (simp add: model_defs)

lemma run_lookup_fails:
  "lookup_fails e (UserID order) \<Longrightarrow>
   CreateOrder e (Payload order) (start st) =
     (Some (http_Error
        (case http_Get e (UserID order) of
           TransportError err \<Rightarrow> ''user service unavailable: '' @ err
         | _ \<Rightarrow> ''user not found'') StatusBadRequest),
      \<lparr>db = st, trace = [HttpGet (UserID order)], snapshots = []\<rparr>)"
  by (auto simp: model_defs outcome_defs split: http_outcome.splits)

lemma run_insert_fails:
  "lookup_ok e (UserID order) \<Longrightarrow> insert_error e = Some err \<Longrightarrow>
   CreateOrder e (Payload order) (start st) =
     (Some (http_Error err StatusInternalServerError),
      \<lparr>db = st,
       trace = [HttpGet (UserID order),
                QueryRowInsert (UserID order) (Product order) (Quantity order)
                  (Amount order) ''pending'' (time_Now e)],
       snapshots = []\<rparr>)"
  by (simp add: model_defs outcome_defs)

lemma run_payment_blocked:
  "lookup_ok e (UserID order) \<Longrightarrow> insert_error e = None \<Longrightarrow>
   http_Post e (next_id st) (Amount order) = NoReply \<Longrightarrow>
   CreateOrder e (Payload order) (start st) =
     (None,
      \<lparr>db = pending_store e order st,
       trace = [HttpGet (UserID order),
                QueryRowInsert (UserID order) (Product order) (Quantity order)
                  (Amount order) ''pending'' (time_Now e),
                HttpPost (next_id st) (Amount order)],
       snapshots = [pending_store e order st]\<rparr>)"
  by (simp add: model_defs outcome_defs)

lemma run_payment_fails:
  "lookup_ok e (UserID order) \<Longrightarrow> insert_error e = None \<Longrightarrow>
   payment_fails e (next_id st) (Amount order) \<Longrightarrow>
   CreateOrder e (Payload order) (start st) =
     (Some (http_Error
        (case http_Post e (next_id st) (Amount order) of
           TransportError err \<Rightarrow> ''payment service unavailable: '' @ err
         | _ \<Rightarrow> ''payment failed'') StatusInternalServerError),
      \<lparr>db = (if update_error e = None
             then update_status ''payment_failed'' (next_id st) (pending_store e order st)
             else pending_store e order st),
       trace = [HttpGet (UserID order),
                QueryRowInsert (UserID order) (Product order) (Quantity order)
                  (Amount order) ''pending'' (time_Now e),
                HttpPost (next_id st) (Amount order),
                ExecUpdate ''payment_failed'' (next_id st)],
       snapshots = (if update_error e = None
             then [pending_store e order st,
                   update_status ''payment_failed'' (next_id st) (pending_store e order st)]
             else [pending_store e order st])\<rparr>)"
  by (auto simp: model_defs outcome_defs split: http_outcome.splits option.splits)

lemma run_payment_ok:
  "lookup_ok e (UserID order) \<Longrightarrow> insert_error e = None \<Longrightarrow>
   payment_ok e (next_id st) (Amount order) \<Longrightarrow>
   CreateOrder e (Payload order) (start st) =
     (Some (json_Encode (order\<lparr>ID := next_id st, Status := ''completed'', CreatedAt := time_Now e\<rparr>)),
      \<lparr>db = (if update_error e = None
             then update_status ''completed'' (next_id st) (pending_store e order st)
             else pending_store e order st),
       trace = [HttpGet (UserID order),
                QueryRowInsert (UserID order) (Product order) (Quantity order)
                  (Amount order) ''pending'' (time_Now e),
                HttpPost (next_id st) (Amount order),
                ExecUpdate ''completed'' (next_id st)],
       snapshots = (if update_error e = None
             then [pending_store e order st,
                   update_status ''completed'' (next_id st) (pending_store e order st)]
             else [pending_store e order st])\<rparr>)"
  by (auto simp: model_defs outcome_defs split: http_outcome.splits option.splits)

text \<open>Every environment and payload falls under one of the cases.\<close>

lemma run_cases:
  fixes e :: env and order :: Order and st :: store
  obtains (lookup_blocked) "http_Get e (UserID order) = NoReply"
  | (lookup_fails) "lookup_fails e (UserID order)"
  | (insert_fails) err where "lookup_ok e (UserID order)" "insert_error e = Some err"
  | (payment_blocked) "lookup_ok e (UserID order)" "insert_error e = None"
      "http_Post e (next_id st) (Amount order) = NoReply"
  | (payment_fails) "lookup_ok e (UserID order)" "insert_error e = None"
      "payment_fails e (next_id st) (Amount order)"
  | (payment_ok) "lookup_ok e (UserID order)" "insert_error e = None"
      "payment_ok e (next_id st) (Amount order)"
  by (cases "http_Get e (UserID order)"; cases "insert_error e";
      cases "http_Post e (next_id st) (Amount order)")
     (auto simp: outcome_defs)

lemma rows_insert_row:
  "rows (insert_row u p q a s t st) =
     rows st @ [\<lparr>ID = next_id st, UserID = u, Product = p, Quantity = q,
                 Amount = a, Status = s, CreatedAt = t\<rparr>]"
  by (simp add: insert_row_def)

lemma rows_pending_store:
  "rows (pending_store e order st) =
     rows st @ [order\<lparr>ID := next_id st, Status := ''pending'', CreatedAt := time_Now e\<rparr>]"
  by (simp add: insert_row_def)

lemma store_inv_insert_row:
  "store_inv st \<Longrightarrow> valid_status s \<Longrightarrow> store_inv (insert_row u p q a s t st)"
  by (auto simp: store_inv_def insert_row_def list_all_iff)

lemma store_inv_update_status:
  "store_inv st \<Longrightarrow> valid_status s \<Longrightarrow> store_inv (update_status s i st)"
  by (auto simp: store_inv_def update_status_def ID_set_status set_status_def list_all_iff)

lemma update_status_old_rows:
  "list_all (\<lambda>r. ID r < i) xs \<Longrightarrow> map (set_status s i) xs = xs"
  by (induction xs) (auto simp: set_status_def)

lemma CreateOrder_store_inv:
  assumes "store_inv st" and "CreateOrder e r (start st) = (reply, w)"
  shows "store_inv (db w) \<and> list_all store_inv (snapshots w)"
proof (cases r)
  case (Unparseable err)
  with assms show ?thesis
    by (auto simp: run_unparseable start_def)
next
  case (Payload order)
  have v: "valid_status ''pending''" "valid_status ''completed''" "valid_status ''payment_failed''"
    by (simp_all add: valid_status_def)
  note inv = store_inv_insert_row store_inv_update_status
  show ?thesis
  proof (cases rule: run_cases [where e = e and order = order and st = st])
    case lookup_blocked
    with assms Payload show ?thesis by (auto simp: run_lookup_blocked)
  next
    case lookup_fails
    with assms Payload show ?thesis by (auto simp: run_lookup_fails)
  next
    case (insert_fails err)
    with assms Payload show ?thesis by (auto simp: run_insert_fails)
  next
    case payment_blocked
    with assms Payload show ?thesis by (auto simp: run_payment_blocked inv v)
  next
    case payment_fails
    with assms Payload show ?thesis by (auto simp: run_payment_fails inv v)
  next
    case payment_ok
    with assms Payload show ?thesis by (auto simp: run_payment_ok inv v)
  qed
qed

lemma reachable_store_inv: "reachable st \<Longrightarrow> store_inv st"
proof (induction rule: reachable.induct)
  case initial
  show ?case by (simp add: store_inv_def empty_store_def)
next
  case (invoke st e r reply w)
  then show ?case using CreateOrder_store_inv by blast
qed


lemma transitions_insert:
  "store_inv st \<Longrightarrow>
   legal_transition (status_of st i) (status_of (insert_row u p q a ''pending'' t st) i)"
  by (cases "status_of st i") (auto simp: status_of_insert_row)

lemma transitions_update:
  assumes "store_inv st" and "terminal_status s"
  shows "legal_transition (status_of (insert_row u p q a ''pending'' t st) i)
           (status_of (update_status s (next_id st) (insert_row u p q a ''pending'' t st)) i)"
proof -
  from assms(1) have "status_of st (next_id st) = None"
    by (simp add: store_inv_def status_of_fresh)
  then show ?thesis using assms(2)
    by (cases "status_of st i") (auto simp: status_of_insert_row status_of_update_status)
qed

lemma old_rows_kept:
  assumes "store_inv st"
  shows "rows (update_status s (next_id st) (insert_row u p q a s' t st)) =
         rows st @ [\<lparr>ID = next_id st, UserID = u, Product = p, Quantity = q,
                     Amount = a, Status = s, CreatedAt = t\<rparr>]"
  using assms
  by (simp add: store_inv_def update_status_def insert_row_def update_status_old_rows
                set_status_def)

lemma client_fields_set_status: "client_fields \<circ> set_status s i = client_fields"
  by (simp add: fun_eq_iff set_status_def client_fields_def)

lemma CreateOrder_appends:
  assumes "lookup_ok e (UserID order)" and "insert_error e = None"
    and "CreateOrder e (Payload order) (start st) = (reply, w)"
  shows "map ID (rows (db w)) = map ID (rows st) @ [next_id st]"
    and "map client_fields (rows (db w)) = map client_fields (rows st) @ [client_fields order]"
    and "next_id (db w) = next_id st + 1"
    and "\<forall>o'. map_option body reply = Some (Json o') \<longrightarrow> ID o' = next_id st"
proof -
  have "map ID (rows (db w)) = map ID (rows st) @ [next_id st] \<and>
        map client_fields (rows (db w)) = map client_fields (rows st) @ [client_fields order] \<and>
        next_id (db w) = next_id st + 1 \<and>
        (\<forall>o'. map_option body reply = Some (Json o') \<longrightarrow> ID o' = next_id st)"
  proof (cases rule: run_cases [where e = e and order = order and st = st])
    case lookup_blocked
    with assms show ?thesis by (simp add: lookup_ok_def)
  next
    case lookup_fails
    with assms show ?thesis by (simp add: outcome_defs)
  next
    case (insert_fails err)
    with assms show ?thesis by simp
  next
    case payment_blocked
    with assms show ?thesis
      by (auto simp: run_payment_blocked insert_row_def client_fields_def)
  next
    case payment_fails
    with assms show ?thesis
      by (auto simp: run_payment_fails insert_row_def update_status_def ID_set_status
            client_fields_set_status http_Error_def)
         (simp_all add: client_fields_def set_status_def)
  next
    case payment_ok
    with assms show ?thesis
      by (auto simp: run_payment_ok insert_row_def update_status_def ID_set_status
            client_fields_set_status json_Encode_def)
         (simp_all add: client_fields_def set_status_def)
  qed
  then show "map ID (rows (db w)) = map ID (rows st) @ [next_id st]"
    and "map client_fields (rows (db w)) = map client_fields (rows st) @ [client_fields order]"
    and "next_id (db w) = next_id st + 1"
    and "\<forall>o'. map_option body reply = Some (Json o') \<longrightarrow> ID o' = next_id st"
    by simp_all
qed

lemma ID_irrelevant:
  "CreateOrder e (Payload (order\<lparr>ID := c\<rparr>)) w = CreateOrder e (Payload order) w"
  by (simp add: model_defs split: http_outcome.splits option.splits)

lemma pending_row_status:
  "store_inv st \<Longrightarrow> status_of (insert_row u p q a s t st) (next_id st) = Some s"
  by (simp add: status_of_insert_row store_inv_def status_of_fresh)

lemma updated_row_status:
  "store_inv st \<Longrightarrow>
   status_of (update_status s (next_id st) (insert_row u p q a s' t st)) (next_id st) = Some s"
  by (simp add: status_of_update_status pending_row_status)

lemma Decode_other_members:
  assumes "Decode parse err (Object m) = Payload o1"
    and "Decode parse err (Object (m\<lparr>m_id := a, m_status := b, m_created_at := c\<rparr>)) = Payload o2"
  shows "o2 = o1\<lparr>ID := ID o2, Status := Status o2, CreatedAt := CreatedAt o2\<rparr>"
  using assms
  by (auto simp: Decode_def split: option.splits)

lemma three_fields_irrelevant:
  "CreateOrder e (Payload (order\<lparr>ID := ci, Status := cs, CreatedAt := ct\<rparr>)) w =
   CreateOrder e (Payload order) w"
  by (simp add: model_defs split: http_outcome.splits option.splits)

section \<open>Claims about a single invocation\<close>

text \<open>
  C3. When the user lookup fails (the user service cannot be reached, or it answers
  with a status other than 200), \<open>CreateOrder\<close> replies with HTTP 400 and persists
  nothing: the table is what it was, no statement has been sent to the database, and the
  only effect is the one GET.
\<close>

theorem user_lookup_failure:
  assumes "lookup_fails e (UserID order)"
    and "CreateOrder e (Payload order) (start st) = (reply, w)"
  shows "map_option status_code reply = Some 400 \<and>
         reply = Some (http_Error
            (case http_Get e (UserID order) of
               TransportError err \<Rightarrow> ''user service unavailable: '' @ err
             | _ \<Rightarrow> ''user not found'') StatusBadRequest) \<and>
         db w = st \<and> snapshots w = [] \<and> trace w = [HttpGet (UserID order)]"
  using assms
  by (auto simp: run_lookup_fails http_Error_def StatusBadRequest_def)

theorem user_lookup_failure_witness:
  "lookup_fails env_ok (UserID unknown_user_order) \<and>
   CreateOrder env_ok (Payload unknown_user_order) (start empty_store) =
     (Some (http_Error ''user not found'' 400),
      \<lparr>db = empty_store, trace = [HttpGet 999], snapshots = []\<rparr>)"
proof -
  have hyp: "lookup_fails env_ok (UserID unknown_user_order)"
    by (simp add: outcome_defs scenario_defs StatusOK_def)
  obtain reply w where
    run: "CreateOrder env_ok (Payload unknown_user_order) (start empty_store) = (reply, w)"
    by (cases "CreateOrder env_ok (Payload unknown_user_order) (start empty_store)")
  from user_lookup_failure [OF hyp run] have
    "reply = Some (http_Error ''user not found'' 400)"
    "w = \<lparr>db = empty_store, trace = [HttpGet 999], snapshots = []\<rparr>"
    by (simp_all add: scenario_defs StatusBadRequest_def)
  with hyp run show ?thesis
    by simp
qed

text \<open>
  C4. When the user lookup succeeds and the insert fails, \<open>CreateOrder\<close> replies
  with HTTP 500 carrying the database's error, and the payment service is never
  contacted: the effects are the GET and the insert, and nothing else.
\<close>

theorem insert_failure:
  assumes "lookup_ok e (UserID order)"
    and "insert_error e = Some err"
    and "CreateOrder e (Payload order) (start st) = (reply, w)"
  shows "map_option status_code reply = Some 500 \<and>
         reply = Some (http_Error err StatusInternalServerError) \<and>
         list_all (\<lambda>ev. \<not> is_post ev) (trace w) \<and>
         trace w = [HttpGet (UserID order),
                    QueryRowInsert (UserID order) (Product order) (Quantity order)
                      (Amount order) ''pending'' (time_Now e)] \<and>
         db w = st \<and> snapshots w = []"
  using assms
  by (auto simp: run_insert_fails http_Error_def StatusInternalServerError_def is_post_def)

theorem insert_failure_witness:
  "lookup_ok env_insert_fails (UserID book_order) \<and>
   insert_error env_insert_fails = Some ''pq: connection refused'' \<and>
   CreateOrder env_insert_fails (Payload book_order) (start empty_store) =
     (Some (http_Error ''pq: connection refused'' 500),
      \<lparr>db = empty_store,
       trace = [HttpGet 1, QueryRowInsert 1 ''book'' 2 30 ''pending'' 1000],
       snapshots = []\<rparr>)"
proof -
  have hyp1: "lookup_ok env_insert_fails (UserID book_order)"
    by (simp add: outcome_defs scenario_defs StatusOK_def)
  have hyp2: "insert_error env_insert_fails = Some ''pq: connection refused''"
    by (simp add: scenario_defs)
  obtain reply w where
    run: "CreateOrder env_insert_fails (Payload book_order) (start empty_store) = (reply, w)"
    by (cases "CreateOrder env_insert_fails (Payload book_order) (start empty_store)")
  from insert_failure [OF hyp1 hyp2 run] have
    "reply = Some (http_Error ''pq: connection refused'' 500)"
    "w = \<lparr>db = empty_store,
          trace = [HttpGet 1, QueryRowInsert 1 ''book'' 2 30 ''pending'' 1000],
          snapshots = []\<rparr>"
    by (simp_all add: scenario_defs StatusInternalServerError_def)
  with hyp1 hyp2 run show ?thesis
    by simp
qed

text \<open>
  C10, as the code has it. \<open>CreateOrder\<close> overwrites the three fields: whatever the
  payload carries in \<open>id\<close>, \<open>status\<close> and \<open>created_at\<close>, the row that is inserted
  has the identifier the store assigns, the status pending and the current time, an
  update only ever sets a terminal status for that identifier, and an order in the
  reply has the store's identifier, the status completed and the current time. So two
  requests whose bodies differ only in these three members, and both decode, are
  treated alike: the reply, the table and the effects are the same, in every
  environment and from every state.
\<close>

theorem client_fields_overwritten:
  "CreateOrder e (Payload (order\<lparr>ID := ci, Status := cs, CreatedAt := ct\<rparr>)) w =
     CreateOrder e (Payload order) w \<and>
   (Decode parse err (Object m) = Payload oa \<and>
    Decode parse err (Object (m\<lparr>m_id := a, m_status := b, m_created_at := c\<rparr>)) = Payload ob \<longrightarrow>
      CreateOrder e (Payload ob) w = CreateOrder e (Payload oa) w) \<and>
   (lookup_ok e (UserID order) \<and> insert_error e = None \<longrightarrow>
      snapshots (snd (CreateOrder e (Payload (order\<lparr>ID := ci, Status := cs, CreatedAt := ct\<rparr>))
                       (start st))) \<noteq> [] \<and>
      rows (hd (snapshots (snd (CreateOrder e
              (Payload (order\<lparr>ID := ci, Status := cs, CreatedAt := ct\<rparr>)) (start st))))) =
        rows st @ [order\<lparr>ID := next_id st, Status := ''pending'', CreatedAt := time_Now e\<rparr>]) \<and>
   (\<forall>s i. ExecUpdate s i \<in> set (trace (snd (CreateOrder e
              (Payload (order\<lparr>ID := ci, Status := cs, CreatedAt := ct\<rparr>)) (start st)))) \<longrightarrow>
      i = next_id st \<and> terminal_status s) \<and>
   (\<forall>o'. map_option body (fst (CreateOrder e
              (Payload (order\<lparr>ID := ci, Status := cs, CreatedAt := ct\<rparr>)) (start st))) =
            Some (Json o') \<longrightarrow>
      o' = order\<lparr>ID := next_id st, Status := ''completed'', CreatedAt := time_Now e\<rparr>)"
proof -
  have same: "CreateOrder e (Payload (order\<lparr>ID := ci, Status := cs, CreatedAt := ct\<rparr>)) w' =
      CreateOrder e (Payload order) w'" for w'
    by (simp add: model_defs split: http_outcome.splits option.splits)
  have bodies: "Decode parse err (Object m) = Payload oa \<and>
    Decode parse err (Object (m\<lparr>m_id := a, m_status := b, m_created_at := c\<rparr>)) = Payload ob \<longrightarrow>
      CreateOrder e (Payload ob) w = CreateOrder e (Payload oa) w"
  proof
    assume "Decode parse err (Object m) = Payload oa \<and>
      Decode parse err (Object (m\<lparr>m_id := a, m_status := b, m_created_at := c\<rparr>)) = Payload ob"
    then have "ob = oa\<lparr>ID := ID ob, Status := Status ob, CreatedAt := CreatedAt ob\<rparr>"
      using Decode_other_members by blast
    then have "CreateOrder e (Payload ob) w =
        CreateOrder e (Payload (oa\<lparr>ID := ID ob, Status := Status ob, CreatedAt := CreatedAt ob\<rparr>)) w"
      by simp
    then show "CreateOrder e (Payload ob) w = CreateOrder e (Payload oa) w"
      by (simp only: three_fields_irrelevant)
  qed
  have t: "terminal_status ''completed''" "terminal_status ''payment_failed''"
    by (simp_all add: terminal_status_def)
  have effects:
    "(lookup_ok e (UserID order) \<and> insert_error e = None \<longrightarrow>
        snapshots (snd (CreateOrder e (Payload order) (start st))) \<noteq> [] \<and>
        rows (hd (snapshots (snd (CreateOrder e (Payload order) (start st))))) =
          rows st @ [order\<lparr>ID := next_id st, Status := ''pending'', CreatedAt := time_Now e\<rparr>]) \<and>
     (\<forall>s i. ExecUpdate s i \<in> set (trace (snd (CreateOrder e (Payload order) (start st)))) \<longrightarrow>
        i = next_id st \<and> terminal_status s) \<and>
     (\<forall>o'. map_option body (fst (CreateOrder e (Payload order) (start st))) = Some (Json o') \<longrightarrow>
        o' = order\<lparr>ID := next_id st, Status := ''completed'', CreatedAt := time_Now e\<rparr>)"
  proof (cases rule: run_cases [where e = e and order = order and st = st])
    case lookup_blocked
    then show ?thesis by (auto simp: run_lookup_blocked lookup_ok_def)
  next
    case lookup_fails
    then show ?thesis by (auto simp: run_lookup_fails outcome_defs http_Error_def)
  next
    case (insert_fails err)
    then show ?thesis by (auto simp: run_insert_fails http_Error_def)
  next
    case payment_blocked
    then show ?thesis by (auto simp: run_payment_blocked rows_pending_store)
  next
    case payment_fails
    then show ?thesis by (auto simp: run_payment_fails rows_pending_store http_Error_def t)
  next
    case payment_ok
    then show ?thesis by (auto simp: run_payment_ok rows_pending_store json_Encode_def t)
  qed
  from bodies effects show ?thesis
    unfolding same by (intro conjI) (rule refl, assumption, simp_all)
qed



theorem client_fields_overwritten_witness:
  "Decode parse_one ''json: cannot unmarshal'' (Object book_body) = Payload book_order \<and>
   Decode parse_one ''json: cannot unmarshal'' (Object forged_body) =
     Payload (book_order\<lparr>ID := 77, Status := ''completed'', CreatedAt := 5\<rparr>) \<and>
   lookup_ok env_ok (UserID book_order) \<and> insert_error env_ok = None \<and>
   CreateOrder env_ok (Payload (book_order\<lparr>ID := 77, Status := ''completed'', CreatedAt := 5\<rparr>))
     (start empty_store) =
   CreateOrder env_ok (Payload book_order) (start empty_store) \<and>
   rows (hd (snapshots (snd (CreateOrder env_ok
      (Payload (book_order\<lparr>ID := 77, Status := ''completed'', CreatedAt := 5\<rparr>))
      (start empty_store))))) =
     [book_order\<lparr>ID := 1, Status := ''pending'', CreatedAt := 1000\<rparr>]"
proof -
  have d1: "Decode parse_one ''json: cannot unmarshal'' (Object book_body) = Payload book_order"
    by (simp add: decode_defs scenario_defs)
  have d2: "Decode parse_one ''json: cannot unmarshal'' (Object forged_body) =
     Payload (book_order\<lparr>ID := 77, Status := ''completed'', CreatedAt := 5\<rparr>)"
    by (simp add: decode_defs scenario_defs)
  have hyp1: "lookup_ok env_ok (UserID book_order)"
    by (simp add: outcome_defs scenario_defs StatusOK_def)
  have hyp2: "insert_error env_ok = None"
    by (simp add: scenario_defs)
  note inst = client_fields_overwritten
    [where e = env_ok and order = book_order and ci = 77 and cs = "''completed''" and ct = 5
       and st = empty_store and w = "start empty_store"
       and parse = parse_one and err = "''json: cannot unmarshal''" and m = book_body
       and a = "Some (JInt 77)" and b = "Some (JString ''completed'')"
       and c = "Some (JString ''2020-01-01T00:00:00Z'')" and oa = book_order
       and ob = "book_order\<lparr>ID := 77, Status := ''completed'', CreatedAt := 5\<rparr>"]
  from inst d1 d2 [unfolded forged_body_def] have eq:
    "CreateOrder env_ok (Payload (book_order\<lparr>ID := 77, Status := ''completed'', CreatedAt := 5\<rparr>))
       (start empty_store) =
     CreateOrder env_ok (Payload book_order) (start empty_store)"
    by blast
  from inst hyp1 hyp2 have
    "rows (hd (snapshots (snd (CreateOrder env_ok
        (Payload (book_order\<lparr>ID := 77, Status := ''completed'', CreatedAt := 5\<rparr>))
        (start empty_store))))) =
     rows empty_store @
       [book_order\<lparr>ID := next_id empty_store, Status := ''pending'',
                    CreatedAt := time_Now env_ok\<rparr>]"
    by blast
  then have rows1:
    "rows (hd (snapshots (snd (CreateOrder env_ok
        (Payload (book_order\<lparr>ID := 77, Status := ''completed'', CreatedAt := 5\<rparr>))
        (start empty_store))))) =
     [book_order\<lparr>ID := 1, Status := ''pending'', CreatedAt := 1000\<rparr>]"
    by (simp add: empty_store_def env_ok_def)
  from d1 d2 hyp1 hyp2 eq rows1 show ?thesis
    by (intro conjI)
qed

text \<open>
  The claim as the specification words it fails for bodies that do not decode: a string
  in \<open>id\<close>, or a number in \<open>created_at\<close>, makes \<open>Decode\<close> return an error, and the
  request that is answered with HTTP 200 without the member is rejected with HTTP 400,
  before any effect, with it.
\<close>

theorem wrong_shape_counterexample:
  "bad_id_body = book_body\<lparr>m_id := Some (JString ''abc'')\<rparr> \<and>
   bad_time_body = book_body\<lparr>m_created_at := Some (JInt 5)\<rparr> \<and>
   map_option status_code (fst (CreateOrder env_ok
     (Decode parse_one ''json: cannot unmarshal'' (Object book_body)) (start empty_store))) =
     Some 200 \<and>
   CreateOrder env_ok
     (Decode parse_one ''json: cannot unmarshal'' (Object bad_id_body)) (start empty_store) =
     (Some \<lparr>status_code = 400, content_type = ''text/plain; charset=utf-8'',
             body = Text ''json: cannot unmarshal''\<rparr>, start empty_store) \<and>
   CreateOrder env_ok
     (Decode parse_one ''json: cannot unmarshal'' (Object bad_time_body)) (start empty_store) =
     (Some \<lparr>status_code = 400, content_type = ''text/plain; charset=utf-8'',
             body = Text ''json: cannot unmarshal''\<rparr>, start empty_store)"
proof -
  have good: "Decode parse_one ''json: cannot unmarshal'' (Object book_body) = Payload book_order"
    by (simp add: decode_defs scenario_defs)
  have bad1: "Decode parse_one ''json: cannot unmarshal'' (Object bad_id_body) =
      Unparseable ''json: cannot unmarshal''"
    by (simp add: decode_defs scenario_defs)
  have bad2: "Decode parse_one ''json: cannot unmarshal'' (Object bad_time_body) =
      Unparseable ''json: cannot unmarshal''"
    by (simp add: decode_defs scenario_defs)
  have ok: "map_option status_code
      (fst (CreateOrder env_ok (Payload book_order) (start empty_store))) = Some 200"
    by (simp add: model_defs scenario_defs)
  show ?thesis
    unfolding good bad1 bad2 using ok
    by (simp add: run_unparseable http_Error_def StatusBadRequest_def
          bad_id_body_def bad_time_body_def)
qed

text \<open>
  C2, as the code has it. An unparseable payload is rejected with HTTP 400 before
  anything else happens: no outbound call, no statement, the table untouched. That is
  the only check on the input: a payload that parses always goes on to the user lookup,
  with the user identifier it carries.
\<close>

theorem unparseable_rejected:
  "CreateOrder e (Unparseable err) (start st) =
     (Some (http_Error err StatusBadRequest), start st) \<and>
   status_code (http_Error err StatusBadRequest) = 400 \<and>
   trace (start st) = [] \<and> db (start st) = st \<and>
   hd (trace (snd (CreateOrder e (Payload order) (start st)))) = HttpGet (UserID order) \<and>
   trace (snd (CreateOrder e (Payload order) (start st))) \<noteq> []"
proof -
  have "hd (trace (snd (CreateOrder e (Payload order) (start st)))) = HttpGet (UserID order) \<and>
        trace (snd (CreateOrder e (Payload order) (start st))) \<noteq> []"
    by (cases rule: run_cases [where e = e and order = order and st = st])
       (simp_all add: run_lookup_blocked run_lookup_fails run_insert_fails
          run_payment_blocked run_payment_fails run_payment_ok)
  then show ?thesis
    by (simp add: run_unparseable http_Error_def StatusBadRequest_def start_def)
qed

text \<open>
  The claim as the specification words it fails: a payload with an empty product and a
  negative amount is accepted, stored and charged, and a payload whose user identifier
  is zero reaches the user service.
\<close>

theorem field_checks_counterexample:
  "Product odd_order = [] \<and> Amount odd_order < 0 \<and>
   CreateOrder env_ok (Payload odd_order) (start empty_store) =
     (Some (json_Encode (odd_order\<lparr>ID := 1, Status := ''completed'', CreatedAt := 1000\<rparr>)),
      \<lparr>db = \<lparr>rows = [odd_order\<lparr>ID := 1, Status := ''completed'', CreatedAt := 1000\<rparr>],
             next_id = 2\<rparr>,
       trace = [HttpGet 1, QueryRowInsert 1 [] 0 (- 5) ''pending'' 1000,
                HttpPost 1 (- 5), ExecUpdate ''completed'' 1],
       snapshots =
         [\<lparr>rows = [odd_order\<lparr>ID := 1, Status := ''pending'', CreatedAt := 1000\<rparr>],
           next_id = 2\<rparr>,
          \<lparr>rows = [odd_order\<lparr>ID := 1, Status := ''completed'', CreatedAt := 1000\<rparr>],
           next_id = 2\<rparr>]\<rparr>) \<and>
   status_code (json_Encode (odd_order\<lparr>ID := 1, Status := ''completed'', CreatedAt := 1000\<rparr>))
     = 200 \<and>
   \<not> 0 < UserID zero_user_order \<and>
   trace (snd (CreateOrder env_ok (Payload zero_user_order) (start empty_store))) =
     [HttpGet 0]"
  by (simp add: model_defs scenario_defs insert_row_def update_status_def set_status_def)

text \<open>
  C5, as the code has it. When the user exists, the insert succeeds and the payment succeeds, the order is
  first stored with status pending and the current time, under the identifier the store
  assigns, and only then is the payment service called; after the payment the update to
  completed is sent for that identifier, and the reply is HTTP 200 with the order, its
  status completed. The effects are the GET, the insert, the POST and the update, in
  this order. The table holds the pending row at the time of the payment call and, once
  the database has applied the update, the completed row.
\<close>

theorem order_completed:
  assumes "lookup_ok e (UserID order)"
    and "insert_error e = None"
    and "payment_ok e (next_id st) (Amount order)"
    and "CreateOrder e (Payload order) (start st) = (reply, w)"
  shows "map_option status_code reply = Some 200 \<and>
         map_option body reply =
           Some (Json (order\<lparr>ID := next_id st, Status := ''completed'',
                              CreatedAt := time_Now e\<rparr>)) \<and>
         trace w = [HttpGet (UserID order),
                    QueryRowInsert (UserID order) (Product order) (Quantity order)
                      (Amount order) ''pending'' (time_Now e),
                    HttpPost (next_id st) (Amount order),
                    ExecUpdate ''completed'' (next_id st)] \<and>
         snapshots w \<noteq> [] \<and>
         rows (hd (snapshots w)) =
           rows st @ [order\<lparr>ID := next_id st, Status := ''pending'',
                            CreatedAt := time_Now e\<rparr>] \<and>
         (if update_error e = None
          then db w = update_status ''completed'' (next_id st) (hd (snapshots w)) \<and>
               status_of (db w) (next_id st) = Some ''completed'' \<and>
               snapshots w = [hd (snapshots w), db w]
          else db w = hd (snapshots w) \<and> snapshots w = [db w])"
  using assms
  by (auto simp: run_payment_ok json_Encode_def StatusOK_def rows_pending_store
        status_of_insert_row status_of_update_status split: option.splits)

theorem order_completed_witness:
  "lookup_ok env_ok (UserID book_order) \<and> insert_error env_ok = None \<and>
   payment_ok env_ok (next_id empty_store) (Amount book_order) \<and>
   map_option status_code (fst (CreateOrder env_ok (Payload book_order) (start empty_store))) =
     Some 200 \<and>
   map_option body (fst (CreateOrder env_ok (Payload book_order) (start empty_store))) =
     Some (Json (book_order\<lparr>ID := 1, Status := ''completed'', CreatedAt := 1000\<rparr>)) \<and>
   trace (snd (CreateOrder env_ok (Payload book_order) (start empty_store))) =
     [HttpGet 1, QueryRowInsert 1 ''book'' 2 30 ''pending'' 1000, HttpPost 1 30,
      ExecUpdate ''completed'' 1] \<and>
   status_of (db (snd (CreateOrder env_ok (Payload book_order) (start empty_store)))) 1 =
     Some ''completed''"
proof -
  have hyp1: "lookup_ok env_ok (UserID book_order)"
    by (simp add: outcome_defs scenario_defs StatusOK_def)
  have hyp2: "insert_error env_ok = None"
    by (simp add: scenario_defs)
  have hyp3: "payment_ok env_ok (next_id empty_store) (Amount book_order)"
    by (simp add: outcome_defs scenario_defs StatusOK_def)
  obtain reply w where
    run: "CreateOrder env_ok (Payload book_order) (start empty_store) = (reply, w)"
    by (cases "CreateOrder env_ok (Payload book_order) (start empty_store)")
  from order_completed [OF hyp1 hyp2 hyp3 run]
  have "map_option status_code reply = Some 200"
    "map_option body reply =
       Some (Json (book_order\<lparr>ID := 1, Status := ''completed'', CreatedAt := 1000\<rparr>))"
    "trace w = [HttpGet 1, QueryRowInsert 1 ''book'' 2 30 ''pending'' 1000, HttpPost 1 30,
      ExecUpdate ''completed'' 1]"
    "status_of (db w) 1 = Some ''completed''"
    by (auto simp: scenario_defs)
  with hyp1 hyp2 hyp3 run show ?thesis
    by simp
qed

text \<open>
  The claim as the specification words it fails where it says that the order is updated
  to completed: when the database rejects the update, whose result the handler does not
  look at, the reply is HTTP 200 with status completed and the stored order is still
  pending.
\<close>

theorem update_lost_counterexample:
  "lookup_ok env_update_fails (UserID book_order) \<and>
   insert_error env_update_fails = None \<and>
   payment_ok env_update_fails (next_id empty_store) (Amount book_order) \<and>
   CreateOrder env_update_fails (Payload book_order) (start empty_store) =
     (Some (json_Encode (book_order\<lparr>ID := 1, Status := ''completed'', CreatedAt := 1000\<rparr>)),
      \<lparr>db = \<lparr>rows = [book_order\<lparr>ID := 1, Status := ''pending'', CreatedAt := 1000\<rparr>],
             next_id = 2\<rparr>,
       trace = [HttpGet 1, QueryRowInsert 1 ''book'' 2 30 ''pending'' 1000,
                HttpPost 1 30, ExecUpdate ''completed'' 1],
       snapshots =
         [\<lparr>rows = [book_order\<lparr>ID := 1, Status := ''pending'', CreatedAt := 1000\<rparr>],
           next_id = 2\<rparr>]\<rparr>) \<and>
   status_code (json_Encode (book_order\<lparr>ID := 1, Status := ''completed'', CreatedAt := 1000\<rparr>))
     = 200 \<and>
   status_of \<lparr>rows = [book_order\<lparr>ID := 1, Status := ''pending'', CreatedAt := 1000\<rparr>],
              next_id = 2\<rparr> 1 = Some ''pending''"
  by (simp add: model_defs outcome_defs scenario_defs insert_row_def status_of_def)

text \<open>
  C1, as the code has it. When the user lookup and the insert succeed and the payment
  call fails (the POST returns an error or a status other than 200), the update to
  payment\_failed is sent for the new order, and the reply is HTTP 500 with the text of
  the payment error; the order is not in the reply. The table holds the order with
  status payment\_failed once the database has applied the update, whose result the
  handler does not look at.
\<close>

theorem payment_failure:
  assumes "lookup_ok e (UserID order)"
    and "insert_error e = None"
    and "payment_fails e (next_id st) (Amount order)"
    and "CreateOrder e (Payload order) (start st) = (reply, w)"
  shows "map_option status_code reply = Some 500 \<and>
         map_option body reply =
           Some (Text (case http_Post e (next_id st) (Amount order) of
                         TransportError err \<Rightarrow> ''payment service unavailable: '' @ err
                       | _ \<Rightarrow> ''payment failed'')) \<and>
         trace w = [HttpGet (UserID order),
                    QueryRowInsert (UserID order) (Product order) (Quantity order)
                      (Amount order) ''pending'' (time_Now e),
                    HttpPost (next_id st) (Amount order),
                    ExecUpdate ''payment_failed'' (next_id st)] \<and>
         (if update_error e = None
          then db w = update_status ''payment_failed'' (next_id st) (pending_store e order st) \<and>
               status_of (db w) (next_id st) = Some ''payment_failed''
          else db w = pending_store e order st)"
  using assms
  by (auto simp: run_payment_fails http_Error_def StatusInternalServerError_def
        status_of_insert_row status_of_update_status split: option.splits)

theorem payment_failure_witness:
  "lookup_ok env_payment_rejected (UserID book_order) \<and>
   insert_error env_payment_rejected = None \<and>
   payment_fails env_payment_rejected (next_id empty_store) (Amount book_order) \<and>
   update_error env_payment_rejected = None \<and>
   trace (snd (CreateOrder env_payment_rejected (Payload book_order) (start empty_store))) =
     [HttpGet 1, QueryRowInsert 1 ''book'' 2 30 ''pending'' 1000, HttpPost 1 30,
      ExecUpdate ''payment_failed'' 1] \<and>
   status_of (db (snd (CreateOrder env_payment_rejected (Payload book_order)
                        (start empty_store)))) 1 = Some ''payment_failed''"
proof -
  have hyp1: "lookup_ok env_payment_rejected (UserID book_order)"
    by (simp add: outcome_defs scenario_defs StatusOK_def)
  have hyp2: "insert_error env_payment_rejected = None"
    by (simp add: scenario_defs)
  have hyp3: "payment_fails env_payment_rejected (next_id empty_store) (Amount book_order)"
    by (simp add: outcome_defs scenario_defs StatusOK_def)
  have hyp4: "update_error env_payment_rejected = None"
    by (simp add: scenario_defs)
  obtain reply w where run:
    "CreateOrder env_payment_rejected (Payload book_order) (start empty_store) = (reply, w)"
    by (cases "CreateOrder env_payment_rejected (Payload book_order) (start empty_store)")
  from payment_failure [OF hyp1 hyp2 hyp3 run] hyp4
  have "trace w = [HttpGet 1, QueryRowInsert 1 ''book'' 2 30 ''pending'' 1000, HttpPost 1 30,
      ExecUpdate ''payment_failed'' 1]" "status_of (db w) 1 = Some ''payment_failed''"
    by (auto simp: scenario_defs)
  with hyp1 hyp2 hyp3 hyp4 run show ?thesis
    by simp
qed

text \<open>
  The claim as the specification words it fails in Scenario B: the payment service
  answers 402, and the reply is HTTP 500 with the text \<open>payment failed\<close>, not HTTP 200
  with the order.
\<close>

theorem payment_failure_counterexample:
  "lookup_ok env_payment_rejected (UserID book_order) \<and>
   insert_error env_payment_rejected = None \<and>
   payment_fails env_payment_rejected (next_id empty_store) (Amount book_order) \<and>
   fst (CreateOrder env_payment_rejected (Payload book_order) (start empty_store)) =
     Some \<lparr>status_code = 500, content_type = ''text/plain; charset=utf-8'',
           body = Text ''payment failed''\<rparr> \<and>
   (500::nat) \<noteq> 200"
  by (simp add: model_defs outcome_defs scenario_defs)

section \<open>Claims about several invocations\<close>

text \<open>
  C7. Calling \<open>CreateOrder\<close> twice with the same payload, in environments where
  both calls get as far as a successful insert, leaves two new rows in the table, under
  two different identifiers, and all identifiers in the table remain pairwise distinct.
  The identifiers are the store's counter values at the two insertions; the identifier
  in the payload plays no part: the first call runs the same with any other client
  identifier.
\<close>

theorem no_deduplication:
  assumes "reachable st"
    and "lookup_ok e1 (UserID order)" and "insert_error e1 = None"
    and "lookup_ok e2 (UserID order)" and "insert_error e2 = None"
    and "CreateOrder e1 (Payload order) (start st) = (reply1, w1)"
    and "CreateOrder e2 (Payload order) (start (db w1)) = (reply2, w2)"
  shows "map ID (rows (db w2)) = map ID (rows st) @ [next_id st, next_id st + 1] \<and>
         next_id st \<noteq> next_id st + 1 \<and>
         distinct (map ID (rows (db w2))) \<and>
         map client_fields (rows (db w2)) =
           map client_fields (rows st) @ [client_fields order, client_fields order] \<and>
         (\<forall>o1. map_option body reply1 = Some (Json o1) \<longrightarrow> ID o1 = next_id st) \<and>
         (\<forall>o2. map_option body reply2 = Some (Json o2) \<longrightarrow> ID o2 = next_id st + 1) \<and>
         CreateOrder e1 (Payload (order\<lparr>ID := c\<rparr>)) (start st) = (reply1, w1)"
proof -
  note first = CreateOrder_appends [OF assms(2,3,6)]
  note second = CreateOrder_appends [OF assms(4,5,7)]
  from assms(1,6) have "reachable (db w1)"
    by (rule reachable.invoke)
  from this assms(7) have "reachable (db w2)"
    by (rule reachable.invoke)
  then have "distinct (map ID (rows (db w2)))"
    using reachable_store_inv by (auto simp: store_inv_def)
  with first second assms(6) show ?thesis
    by (simp add: ID_irrelevant)
qed

theorem no_deduplication_witness:
  "reachable empty_store \<and>
   lookup_ok env_ok (UserID book_order) \<and> insert_error env_ok = None \<and>
   lookup_ok env_payment_rejected (UserID book_order) \<and>
   insert_error env_payment_rejected = None \<and>
   map ID (rows (db (snd (CreateOrder env_payment_rejected (Payload book_order)
     (start (db (snd (CreateOrder env_ok (Payload book_order) (start empty_store)))))))))
     = [1, 2]"
proof -
  have hyp1: "lookup_ok env_ok (UserID book_order)"
    and hyp3: "lookup_ok env_payment_rejected (UserID book_order)"
    by (simp_all add: outcome_defs scenario_defs StatusOK_def)
  have hyp2: "insert_error env_ok = None"
    and hyp4: "insert_error env_payment_rejected = None"
    by (simp_all add: scenario_defs)
  obtain reply1 w1 where
    run1: "CreateOrder env_ok (Payload book_order) (start empty_store) = (reply1, w1)"
    by (cases "CreateOrder env_ok (Payload book_order) (start empty_store)")
  obtain reply2 w2 where
    run2: "CreateOrder env_payment_rejected (Payload book_order) (start (db w1)) = (reply2, w2)"
    by (cases "CreateOrder env_payment_rejected (Payload book_order) (start (db w1))")
  from no_deduplication [OF reachable.initial hyp1 hyp2 hyp3 hyp4 run1 run2]
  have "map ID (rows (db w2)) = [1, 2]"
    by (simp add: empty_store_def)
  with reachable.initial hyp1 hyp2 hyp3 hyp4 run1 run2 show ?thesis
    by simp
qed

text \<open>
  C6, as the code has it. In every table the service can produce, each order's status
  is pending, completed or payment\_failed. During an invocation the status of an order
  only ever stays as it is, appears as pending, or goes from pending to completed or
  payment\_failed; nothing leaves a terminal status, and the rows that were there before
  the invocation are untouched. An update is only ever sent for the order that the same
  invocation has just created, and at most once: to completed when the payment has
  succeeded, to payment\_failed when it has failed. It is sent exactly once when the
  invocation has stored an order and goes on to reply.
\<close>

theorem order_status_state_machine:
  assumes "reachable st" and "CreateOrder e r (start st) = (reply, w)"
  shows "list_all (\<lambda>s. list_all (\<lambda>row. valid_status (Status row)) (rows s))
           (st # snapshots w) \<and>
         (\<forall>i. successively (\<lambda>s s'. legal_transition (status_of s i) (status_of s' i))
                 (st # snapshots w)) \<and>
         prefix (rows st) (rows (db w)) \<and>
         (\<forall>s i. ExecUpdate s i \<in> set (trace w) \<longrightarrow>
            i = next_id st \<and> terminal_status s \<and> status_of st i = None \<and>
            snapshots w \<noteq> [] \<and> status_of (hd (snapshots w)) i = Some ''pending'' \<and>
            (\<exists>order. r = Payload order \<and>
               (s = ''completed'' \<longleftrightarrow> payment_ok e i (Amount order)) \<and>
               (s = ''payment_failed'' \<longleftrightarrow> payment_fails e i (Amount order)))) \<and>
         length (filter is_update (trace w)) \<le> 1 \<and>
         (reply \<noteq> None \<and> rows (db w) \<noteq> rows st \<longrightarrow>
            length (filter is_update (trace w)) = 1)"
proof -
  from assms(1) have inv: "store_inv st"
    by (rule reachable_store_inv)
  then have fresh: "status_of st (next_id st) = None"
    by (simp add: store_inv_def status_of_fresh)
  from inv have valid0: "list_all (\<lambda>row. valid_status (Status row)) (rows st)"
    by (simp add: store_inv_def)
  from CreateOrder_store_inv [OF inv assms(2)]
  have valid: "list_all (\<lambda>s. list_all (\<lambda>row. valid_status (Status row)) (rows s)) (snapshots w)"
    by (auto simp: list_all_iff store_inv_def)
  have t: "terminal_status ''completed''" "terminal_status ''payment_failed''"
    by (simp_all add: terminal_status_def)
  note tr = transitions_insert [OF inv] transitions_update [OF inv]
    pending_row_status [OF inv] updated_row_status [OF inv]
  show ?thesis
  proof (cases r)
    case (Unparseable err)
    with assms(2) valid0 show ?thesis
      by (auto simp: run_unparseable start_def)
  next
    case (Payload order)
    show ?thesis
    proof (cases rule: run_cases [where e = e and order = order and st = st])
      case lookup_blocked
      with assms(2) Payload valid0 show ?thesis by (auto simp: run_lookup_blocked)
    next
      case lookup_fails
      with assms(2) Payload valid0 show ?thesis by (auto simp: run_lookup_fails)
    next
      case (insert_fails err)
      with assms(2) Payload valid0 show ?thesis by (auto simp: run_insert_fails is_update_def)
    next
      case payment_blocked
      with assms(2) Payload valid0 valid show ?thesis
        by (auto simp: run_payment_blocked is_update_def tr rows_insert_row)
    next
      case payment_fails
      with assms(2) Payload valid0 valid fresh show ?thesis
        by (auto simp: run_payment_fails is_update_def tr t old_rows_kept [OF inv]
              rows_insert_row outcome_defs split: if_splits http_outcome.splits)
    next
      case payment_ok
      with assms(2) Payload valid0 valid fresh show ?thesis
        by (auto simp: run_payment_ok is_update_def tr t old_rows_kept [OF inv]
              rows_insert_row outcome_defs split: if_splits http_outcome.splits)
    qed
  qed
qed

theorem order_status_state_machine_witness:
  "reachable empty_store \<and>
   map (map Status \<circ> rows)
     (empty_store # snapshots (snd (CreateOrder env_ok (Payload book_order) (start empty_store))))
     = [[], [''pending''], [''completed'']] \<and>
   ExecUpdate ''completed'' 1 \<in>
     set (trace (snd (CreateOrder env_ok (Payload book_order) (start empty_store)))) \<and>
   fst (CreateOrder env_ok (Payload book_order) (start empty_store)) \<noteq> None \<and>
   length (filter is_update
     (trace (snd (CreateOrder env_ok (Payload book_order) (start empty_store))))) = 1"
proof -
  have run: "CreateOrder env_ok (Payload book_order) (start empty_store) =
     (Some (json_Encode (book_order\<lparr>ID := 1, Status := ''completed'', CreatedAt := 1000\<rparr>)),
      \<lparr>db = \<lparr>rows = [book_order\<lparr>ID := 1, Status := ''completed'', CreatedAt := 1000\<rparr>],
             next_id = 2\<rparr>,
       trace = [HttpGet 1, QueryRowInsert 1 ''book'' 2 30 ''pending'' 1000,
                HttpPost 1 30, ExecUpdate ''completed'' 1],
       snapshots =
         [\<lparr>rows = [book_order\<lparr>ID := 1, Status := ''pending'', CreatedAt := 1000\<rparr>],
           next_id = 2\<rparr>,
          \<lparr>rows = [book_order\<lparr>ID := 1, Status := ''completed'', CreatedAt := 1000\<rparr>],
           next_id = 2\<rparr>]\<rparr>)"
    by (simp add: model_defs scenario_defs insert_row_def update_status_def set_status_def)
  from order_status_state_machine [OF reachable.initial run]
  have len: "length (filter is_update
      [HttpGet 1, QueryRowInsert 1 ''book'' 2 30 ''pending'' 1000, HttpPost 1 30,
       ExecUpdate ''completed'' 1]) = 1"
    by (simp add: empty_store_def)
  show ?thesis
    unfolding run using len reachable.initial
    by (simp add: empty_store_def)
qed

text \<open>
  The claim as the specification words it fails where it says that every order's status
  is changed exactly once: when the payment service accepts the request and never
  answers, the order has been stored as pending, the handler is blocked in the POST, and
  no update is ever sent for it.
\<close>

theorem order_left_pending_counterexample:
  "CreateOrder env_payment_silent (Payload book_order) (start empty_store) =
     (None,
      \<lparr>db = \<lparr>rows = [book_order\<lparr>ID := 1, Status := ''pending'', CreatedAt := 1000\<rparr>],
             next_id = 2\<rparr>,
       trace = [HttpGet 1, QueryRowInsert 1 ''book'' 2 30 ''pending'' 1000, HttpPost 1 30],
       snapshots =
         [\<lparr>rows = [book_order\<lparr>ID := 1, Status := ''pending'', CreatedAt := 1000\<rparr>],
           next_id = 2\<rparr>]\<rparr>) \<and>
   filter is_update
     (trace (snd (CreateOrder env_payment_silent (Payload book_order) (start empty_store))))
     = []"
  by (simp add: model_defs scenario_defs insert_row_def is_update_def)

section \<open>Effects of an invocation\<close>

text \<open>
  C8, as the code has it. An invocation sends at most one insert and at most one update
  to the database, makes at most one user-validation call and at most one payment call,
  and repeats nothing. What it does is always an initial part of the sequence validate,
  insert, pay, finalise, in this order. The validation call is made exactly when the
  payload parses, the insert is sent exactly when the validation has succeeded, the
  payment call is made exactly when the insert has succeeded, and the update is sent
  exactly when the payment call has returned.
\<close>

theorem effects_budget:
  assumes "CreateOrder e r (start st) = (reply, w)"
  shows "length (filter is_get (trace w)) \<le> 1 \<and> length (filter is_insert (trace w)) \<le> 1 \<and>
         length (filter is_post (trace w)) \<le> 1 \<and> length (filter is_update (trace w)) \<le> 1 \<and>
         (case r of
            Unparseable err \<Rightarrow> trace w = []
          | Payload order \<Rightarrow>
              (\<exists>s. terminal_status s \<and>
                 prefix (trace w)
                   [HttpGet (UserID order),
                    QueryRowInsert (UserID order) (Product order) (Quantity order)
                      (Amount order) ''pending'' (time_Now e),
                    HttpPost (next_id st) (Amount order),
                    ExecUpdate s (next_id st)]) \<and>
              length (filter is_get (trace w)) = 1 \<and>
              length (filter is_insert (trace w)) =
                (if lookup_ok e (UserID order) then 1 else 0) \<and>
              length (filter is_post (trace w)) =
                (if lookup_ok e (UserID order) \<and> insert_error e = None then 1 else 0) \<and>
              length (filter is_update (trace w)) =
                (if lookup_ok e (UserID order) \<and> insert_error e = None \<and>
                    http_Post e (next_id st) (Amount order) \<noteq> NoReply then 1 else 0))"
proof (cases r)
  case (Unparseable err)
  with assms show ?thesis
    by (auto simp: run_unparseable start_def)
next
  case (Payload order)
  have t: "terminal_status ''completed''" "terminal_status ''payment_failed''"
    by (simp_all add: terminal_status_def)
  note kinds = is_get_def is_insert_def is_post_def is_update_def
  show ?thesis
  proof (cases rule: run_cases [where e = e and order = order and st = st])
    case lookup_blocked
    with assms Payload t(1) show ?thesis
      by (auto simp: run_lookup_blocked kinds lookup_ok_def intro!: exI [of _ "''completed''"])
  next
    case lookup_fails
    with assms Payload t(1) show ?thesis
      by (auto simp: run_lookup_fails kinds outcome_defs intro!: exI [of _ "''completed''"])
  next
    case (insert_fails err)
    with assms Payload t(1) show ?thesis
      by (auto simp: run_insert_fails kinds intro!: exI [of _ "''completed''"])
  next
    case payment_blocked
    with assms Payload t(1) show ?thesis
      by (auto simp: run_payment_blocked kinds intro!: exI [of _ "''completed''"])
  next
    case payment_fails
    with assms Payload t(2) show ?thesis
      by (auto simp: run_payment_fails kinds outcome_defs intro!: exI [of _ "''payment_failed''"])
  next
    case payment_ok
    with assms Payload t(1) show ?thesis
      by (auto simp: run_payment_ok kinds outcome_defs intro!: exI [of _ "''completed''"])
  qed
qed

theorem effects_budget_witness:
  "length (filter is_get
     (trace (snd (CreateOrder env_ok (Payload book_order) (start empty_store))))) = 1 \<and>
   length (filter is_insert
     (trace (snd (CreateOrder env_ok (Payload book_order) (start empty_store))))) = 1 \<and>
   length (filter is_post
     (trace (snd (CreateOrder env_ok (Payload book_order) (start empty_store))))) = 1 \<and>
   length (filter is_update
     (trace (snd (CreateOrder env_ok (Payload book_order) (start empty_store))))) = 1 \<and>
   trace (snd (CreateOrder env_ok (Payload book_order) (start empty_store))) =
     [HttpGet 1, QueryRowInsert 1 ''book'' 2 30 ''pending'' 1000, HttpPost 1 30,
      ExecUpdate ''completed'' 1]"
proof -
  obtain reply w where
    run: "CreateOrder env_ok (Payload book_order) (start empty_store) = (reply, w)"
    by (cases "CreateOrder env_ok (Payload book_order) (start empty_store)")
  have tr: "trace w = [HttpGet 1, QueryRowInsert 1 ''book'' 2 30 ''pending'' 1000,
      HttpPost 1 30, ExecUpdate ''completed'' 1]"
    using run by (auto simp: model_defs scenario_defs)
  from effects_budget [OF run]
  have "length (filter is_get (trace w)) = 1" "length (filter is_insert (trace w)) = 1"
    "length (filter is_post (trace w)) = 1" "length (filter is_update (trace w)) = 1"
    by (simp_all add: outcome_defs scenario_defs StatusOK_def)
  with run tr show ?thesis
    by simp
qed

text \<open>
  The claim as the specification words it fails where it says "exactly one": a request
  that does not parse causes no validation call and no insert, and a request for an
  unknown user causes no insert.
\<close>

theorem effects_budget_counterexample:
  "filter is_get
     (trace (snd (CreateOrder env_ok (Unparseable ''unexpected EOF'') (start empty_store)))) = [] \<and>
   filter is_insert
     (trace (snd (CreateOrder env_ok (Unparseable ''unexpected EOF'') (start empty_store)))) = [] \<and>
   lookup_fails env_ok (UserID unknown_user_order) \<and>
   trace (snd (CreateOrder env_ok (Payload unknown_user_order) (start empty_store))) =
     [HttpGet 999] \<and>
   filter is_insert
     (trace (snd (CreateOrder env_ok (Payload unknown_user_order) (start empty_store)))) = []"
  by (simp add: model_defs outcome_defs scenario_defs is_get_def is_insert_def)

section \<open>Outbound calls that fail or never return\<close>

text \<open>
  C9, as the code has it. Neither outbound call is bounded: when the user service never
  answers the GET, the invocation never replies, and when the payment service never
  answers the POST, the invocation never replies either and leaves the order pending.
  A call that returns an error, which is how a call cut short would end, is treated as
  a failure of its step, like a reply with a status other than 200: for the GET the
  reply is HTTP 400 and nothing is stored, for the POST the update to payment\_failed is
  sent and the reply is HTTP 500. The effects, the table and the status code are the
  same in the two cases; only the error text differs.
\<close>

theorem outbound_call_failures:
  "(http_Get eg (UserID order) = NoReply \<longrightarrow>
      fst (CreateOrder eg (Payload order) (start st)) = None) \<and>
   (lookup_ok ep (UserID order) \<and> insert_error ep = None \<and>
    http_Post ep (next_id st) (Amount order) = NoReply \<longrightarrow>
      fst (CreateOrder ep (Payload order) (start st)) = None \<and>
      db (snd (CreateOrder ep (Payload order) (start st))) = pending_store ep order st) \<and>
   (code \<noteq> StatusOK \<longrightarrow>
      snd (CreateOrder (e\<lparr>http_Get := \<lambda>u. TransportError err\<rparr>) (Payload order) (start st)) =
      snd (CreateOrder (e\<lparr>http_Get := \<lambda>u. Responded code\<rparr>) (Payload order) (start st)) \<and>
      map_option status_code
        (fst (CreateOrder (e\<lparr>http_Get := \<lambda>u. TransportError err\<rparr>) (Payload order) (start st)))
        = Some 400 \<and>
      map_option status_code
        (fst (CreateOrder (e\<lparr>http_Get := \<lambda>u. Responded code\<rparr>) (Payload order) (start st)))
        = Some 400 \<and>
      db (snd (CreateOrder (e\<lparr>http_Get := \<lambda>u. TransportError err\<rparr>) (Payload order) (start st)))
        = st) \<and>
   (code \<noteq> StatusOK \<and> lookup_ok e (UserID order) \<and> insert_error e = None \<longrightarrow>
      snd (CreateOrder (e\<lparr>http_Post := \<lambda>i a. TransportError err\<rparr>) (Payload order) (start st)) =
      snd (CreateOrder (e\<lparr>http_Post := \<lambda>i a. Responded code\<rparr>) (Payload order) (start st)) \<and>
      map_option status_code
        (fst (CreateOrder (e\<lparr>http_Post := \<lambda>i a. TransportError err\<rparr>) (Payload order) (start st)))
        = Some 500 \<and>
      map_option status_code
        (fst (CreateOrder (e\<lparr>http_Post := \<lambda>i a. Responded code\<rparr>) (Payload order) (start st)))
        = Some 500 \<and>
      last (trace (snd (CreateOrder (e\<lparr>http_Post := \<lambda>i a. TransportError err\<rparr>)
                         (Payload order) (start st))))
        = ExecUpdate ''payment_failed'' (next_id st))"
proof -
  have silent_get: "http_Get eg (UserID order) = NoReply \<longrightarrow>
      fst (CreateOrder eg (Payload order) (start st)) = None"
    by (simp add: run_lookup_blocked)
  have silent_post: "lookup_ok ep (UserID order) \<and> insert_error ep = None \<and>
    http_Post ep (next_id st) (Amount order) = NoReply \<longrightarrow>
      fst (CreateOrder ep (Payload order) (start st)) = None \<and>
      db (snd (CreateOrder ep (Payload order) (start st))) = pending_store ep order st"
    by (simp add: run_payment_blocked)
  have failed_get: "code \<noteq> StatusOK \<longrightarrow>
      snd (CreateOrder (e\<lparr>http_Get := \<lambda>u. TransportError err\<rparr>) (Payload order) (start st)) =
      snd (CreateOrder (e\<lparr>http_Get := \<lambda>u. Responded code\<rparr>) (Payload order) (start st)) \<and>
      map_option status_code
        (fst (CreateOrder (e\<lparr>http_Get := \<lambda>u. TransportError err\<rparr>) (Payload order) (start st)))
        = Some 400 \<and>
      map_option status_code
        (fst (CreateOrder (e\<lparr>http_Get := \<lambda>u. Responded code\<rparr>) (Payload order) (start st)))
        = Some 400 \<and>
      db (snd (CreateOrder (e\<lparr>http_Get := \<lambda>u. TransportError err\<rparr>) (Payload order) (start st)))
        = st"
    by (simp add: run_lookup_fails lookup_fails_def http_Error_def StatusBadRequest_def)
  have failed_post: "code \<noteq> StatusOK \<and> lookup_ok e (UserID order) \<and> insert_error e = None \<longrightarrow>
      snd (CreateOrder (e\<lparr>http_Post := \<lambda>i a. TransportError err\<rparr>) (Payload order) (start st)) =
      snd (CreateOrder (e\<lparr>http_Post := \<lambda>i a. Responded code\<rparr>) (Payload order) (start st)) \<and>
      map_option status_code
        (fst (CreateOrder (e\<lparr>http_Post := \<lambda>i a. TransportError err\<rparr>) (Payload order) (start st)))
        = Some 500 \<and>
      map_option status_code
        (fst (CreateOrder (e\<lparr>http_Post := \<lambda>i a. Responded code\<rparr>) (Payload order) (start st)))
        = Some 500 \<and>
      last (trace (snd (CreateOrder (e\<lparr>http_Post := \<lambda>i a. TransportError err\<rparr>)
                         (Payload order) (start st))))
        = ExecUpdate ''payment_failed'' (next_id st)"
    by (simp add: run_payment_fails lookup_ok_def payment_fails_def http_Error_def
          StatusInternalServerError_def)
  from silent_get silent_post failed_get failed_post show ?thesis
    by blast
qed

theorem outbound_call_failures_witness:
  "http_Get env_users_silent (UserID book_order) = NoReply \<and>
   fst (CreateOrder env_users_silent (Payload book_order) (start empty_store)) = None \<and>
   lookup_ok env_payment_silent (UserID book_order) \<and>
   insert_error env_payment_silent = None \<and>
   http_Post env_payment_silent (next_id empty_store) (Amount book_order) = NoReply \<and>
   fst (CreateOrder env_payment_silent (Payload book_order) (start empty_store)) = None \<and>
   (503::nat) \<noteq> StatusOK \<and> lookup_ok env_ok (UserID book_order) \<and>
   insert_error env_ok = None \<and>
   map_option status_code
     (fst (CreateOrder (env_ok\<lparr>http_Get := \<lambda>u. TransportError ''timeout''\<rparr>)
            (Payload book_order) (start empty_store))) = Some 400 \<and>
   map_option status_code
     (fst (CreateOrder (env_ok\<lparr>http_Post := \<lambda>i a. TransportError ''timeout''\<rparr>)
            (Payload book_order) (start empty_store))) = Some 500 \<and>
   snd (CreateOrder (env_ok\<lparr>http_Post := \<lambda>i a. TransportError ''timeout''\<rparr>)
            (Payload book_order) (start empty_store)) =
   snd (CreateOrder (env_ok\<lparr>http_Post := \<lambda>i a. Responded 503\<rparr>)
            (Payload book_order) (start empty_store))"
proof -
  have hyps: "http_Get env_users_silent (UserID book_order) = NoReply"
    "lookup_ok env_payment_silent (UserID book_order)"
    "insert_error env_payment_silent = None"
    "http_Post env_payment_silent (next_id empty_store) (Amount book_order) = NoReply"
    "(503::nat) \<noteq> StatusOK" "lookup_ok env_ok (UserID book_order)"
    "insert_error env_ok = None"
    by (simp_all add: outcome_defs scenario_defs StatusOK_def)
  from outbound_call_failures
    [where eg = env_users_silent and ep = env_payment_silent and e = env_ok
       and order = book_order and st = empty_store and code = 503 and err = "''timeout''"]
    hyps
  show ?thesis
    by simp
qed

text \<open>
  The claim as the specification words it fails where it says that the calls are
  bounded: a user service, or a payment service, that takes the request and never
  answers blocks the invocation for ever, and no failure of the step is ever reported.
\<close>

theorem unbounded_call_counterexample:
  "http_Get env_users_silent (UserID book_order) = NoReply \<and>
   CreateOrder env_users_silent (Payload book_order) (start empty_store) =
     (None, \<lparr>db = empty_store, trace = [HttpGet 1], snapshots = []\<rparr>) \<and>
   http_Post env_payment_silent 1 30 = NoReply \<and>
   fst (CreateOrder env_payment_silent (Payload book_order) (start empty_store)) = None \<and>
   trace (snd (CreateOrder env_payment_silent (Payload book_order) (start empty_store))) =
     [HttpGet 1, QueryRowInsert 1 ''book'' 2 30 ''pending'' 1000, HttpPost 1 30]"
  by (simp add: model_defs scenario_defs)

end
